theory Spec2Isabelle
  imports Main
begin

section \<open>Values decoded from JSON\<close>

text \<open>
  The script handles Python values as \<^verbatim>\<open>response.json()\<close> yields them and as it
  writes them in its payloads: \<^verbatim>\<open>None\<close>, booleans, integers, floats, strings, lists
  and dictionaries with string keys. A float is kept as sign, mantissa and binary
  exponent (or an infinity, or not-a-number): the script only ever tests one for
  zero. A dictionary is an association list in insertion order; a dictionary's keys
  are distinct, and a lookup reads the binding of its key.
\<close>

datatype pyfloat = Finite bool nat int | Infinity bool | NaN

datatype json =
    JNull
  | JBool bool
  | JInt int
  | JFloat pyfloat
  | JStr string
  | JArr "json list"
  | JObj "(string \<times> json) list"

fun float_nonzero :: "pyfloat \<Rightarrow> bool" where
  "float_nonzero (Finite sg m e) = (m \<noteq> 0)"
| "float_nonzero (Infinity sg) = True"
| "float_nonzero NaN = True"

text \<open>Python's truth value of a value (\<^verbatim>\<open>bool(v)\<close>, used by \<^verbatim>\<open>if v\<close> and \<^verbatim>\<open>not v\<close>).\<close>

fun truthy :: "json \<Rightarrow> bool" where
  "truthy JNull = False"
| "truthy (JBool b) = b"
| "truthy (JInt i) = (i \<noteq> 0)"
| "truthy (JFloat f) = float_nonzero f"
| "truthy (JStr s) = (s \<noteq> [])"
| "truthy (JArr xs) = (xs \<noteq> [])"
| "truthy (JObj kvs) = (kvs \<noteq> [])"

text \<open>
  Whether a value is one that decoding a valid JSON text can give. Python's decoder
  also accepts the token \<^verbatim>\<open>NaN\<close>, which no JSON text holds, and yields the float
  not-a-number for it; an infinity also comes from a valid number too large for a
  float, so only not-a-number tells that the body was not JSON.
\<close>

fun json_value :: "json \<Rightarrow> bool" where
  "json_value (JFloat f) = (f \<noteq> NaN)"
| "json_value (JArr xs) = list_all json_value xs"
| "json_value (JObj kvs) = list_all json_value (map snd kvs)"
| "json_value v = True"

section \<open>Exceptions\<close>

text \<open>
  The exceptions the script can meet: one raised by the HTTP library while sending
  (\<open>RequestException\<close>), the decoding error of \<^verbatim>\<open>response.json()\<close>, and the three
  that inspecting a decoded value can raise.
\<close>

datatype exn =
    RequestException
  | JSONDecodeError
  | KeyError string
  | TypeError
  | AttributeError

section \<open>The Python operations the script applies to a decoded value\<close>

fun is_substring :: "string \<Rightarrow> string \<Rightarrow> bool" where
  "is_substring k [] = (k = [])"
| "is_substring k (c # cs) = (take (length k) (c # cs) = k \<or> is_substring k cs)"

text \<open>
  \<^verbatim>\<open>k in v\<close> for a string \<open>k\<close>: a key test on a dictionary, a membership test on a
  list, a substring test on a string, and a \<^verbatim>\<open>TypeError\<close> on anything else.
\<close>

fun py_in :: "string \<Rightarrow> json \<Rightarrow> exn + bool" where
  "py_in k (JObj kvs) = Inr (k \<in> set (map fst kvs))"
| "py_in k (JArr xs) = Inr (JStr k \<in> set xs)"
| "py_in k (JStr s) = Inr (is_substring k s)"
| "py_in k v = Inl TypeError"

text \<open>\<^verbatim>\<open>v.get(k, d)\<close>: only a dictionary has the method.\<close>

fun py_get :: "json \<Rightarrow> string \<Rightarrow> json \<Rightarrow> exn + json" where
  "py_get (JObj kvs) k d = Inr (case map_of kvs k of None \<Rightarrow> d | Some x \<Rightarrow> x)"
| "py_get v k d = Inl AttributeError"

text \<open>
  \<^verbatim>\<open>v[k]\<close> for a string \<open>k\<close>: a \<^verbatim>\<open>KeyError\<close> on a dictionary without the key, a
  \<^verbatim>\<open>TypeError\<close> on every value that is not a dictionary.
\<close>

fun py_getitem :: "json \<Rightarrow> string \<Rightarrow> exn + json" where
  "py_getitem (JObj kvs) k = (case map_of kvs k of None \<Rightarrow> Inl (KeyError k) | Some x \<Rightarrow> Inr x)"
| "py_getitem v k = Inl TypeError"

text \<open>\<^verbatim>\<open>s.rstrip(chars)\<close>: drop every trailing character that occurs in \<open>chars\<close>.\<close>

definition rstrip :: "string \<Rightarrow> string \<Rightarrow> string" where
  "rstrip s chars = rev (dropWhile (\<lambda>c. c \<in> set chars) (rev s))"

text \<open>\<^verbatim>\<open>s.endswith(suffix)\<close>.\<close>

definition endswith :: "string \<Rightarrow> string \<Rightarrow> bool" where
  "endswith s suffix =
     (length suffix \<le> length s \<and> drop (length s - length suffix) s = suffix)"

section \<open>Requests, responses and what the script does to the outside\<close>

datatype http_method = GET | POST

text \<open>
  A request as \<^verbatim>\<open>session.post(url, json=payload)\<close> and
  \<^verbatim>\<open>session.get(url, params=params)\<close> describe it: the method, the URL, the headers
  of the session, the query parameters and the JSON body.
\<close>

record request =
  req_method :: http_method
  req_url :: string
  req_headers :: "string \<rightharpoonup> string"
  req_params :: "(string \<times> string) list"
  req_json :: "json option"

text \<open>
  Of a response the script reads \<^verbatim>\<open>status_code\<close> and \<^verbatim>\<open>json()\<close>. The field
  \<open>decoded\<close> is what \<^verbatim>\<open>json()\<close> does with the body: \<open>None\<close> when the decoder raises,
  the decoded value otherwise.
\<close>

record response =
  status_code :: int
  decoded :: "json option"

text \<open>
  A printed line is a list of pieces, so that an interpolated value stays a value:
  literal text, characters outside ASCII by their code points as the source file
  holds them, an integer, a value formatted by \<^verbatim>\<open>str\<close>, a value formatted by
  \<^verbatim>\<open>json.dumps(v, indent=2)\<close>, and an exception formatted by \<^verbatim>\<open>str\<close>.
\<close>

datatype piece =
    Txt string
  | Uni "nat list"
  | Num int
  | Fmt json
  | Dumps json
  | FmtExn exn

type_synonym line = "piece list"

datatype event =
    Sent request
  | Printed line
  | Slept nat

text \<open>
  The tester object: its base URL and its session, of which the script touches the
  headers. Everything behind the session (the connection, the remote workflow engine
  and whatever the HTTP library keeps between calls) is the world \<open>'w\<close>, reached only
  through the transport: given the world and a request it yields a response or an
  exception, and the next world.
\<close>

record session =
  headers :: "string \<rightharpoonup> string"

record tester =
  base_url :: string
  session :: session

type_synonym 'w transport = "'w \<Rightarrow> request \<Rightarrow> (exn + response) \<times> 'w"

record 'w state =
  self :: tester
  world :: 'w
  trace :: "event list"

definition py_print :: "line \<Rightarrow> 'w state \<Rightarrow> 'w state" where
  "py_print l s = s\<lparr>trace := trace s @ [Printed l]\<rparr>"

definition time_sleep :: "nat \<Rightarrow> 'w state \<Rightarrow> 'w state" where
  "time_sleep n s = s\<lparr>trace := trace s @ [Slept n]\<rparr>"

definition session_post :: "'w transport \<Rightarrow> string \<Rightarrow> json \<Rightarrow> 'w state \<Rightarrow> (exn + response) \<times> 'w state" where
  "session_post sv u payload s =
     (let req = \<lparr>req_method = POST, req_url = u, req_headers = headers (session (self s)),
                 req_params = [], req_json = Some payload\<rparr>;
          (r, w') = sv (world s) req
      in (r, s\<lparr>world := w', trace := trace s @ [Sent req]\<rparr>))"

definition session_get :: "'w transport \<Rightarrow> string \<Rightarrow> (string \<times> string) list \<Rightarrow> 'w state \<Rightarrow> (exn + response) \<times> 'w state" where
  "session_get sv u ps s =
     (let req = \<lparr>req_method = GET, req_url = u, req_headers = headers (session (self s)),
                 req_params = ps, req_json = None\<rparr>;
          (r, w') = sv (world s) req
      in (r, s\<lparr>world := w', trace := trace s @ [Sent req]\<rparr>))"

definition response_json :: "response \<Rightarrow> exn + json" where
  "response_json r = (case decoded r of None \<Rightarrow> Inl JSONDecodeError | Some v \<Rightarrow> Inr v)"

section \<open>The class \<^verbatim>\<open>N8nVoiceTradingTester\<close>\<close>

text \<open>
  \<^verbatim>\<open>__init__\<close>: the base URL without its trailing slashes, and a new session whose
  headers are the library's defaults \<open>dflt\<close> updated with the content type.
\<close>

definition N8nVoiceTradingTester :: "(string \<rightharpoonup> string) \<Rightarrow> string \<Rightarrow> tester" where
  "N8nVoiceTradingTester dflt b =
     \<lparr>base_url = rstrip b ''/'',
      session = \<lparr>headers = dflt(''Content-Type'' \<mapsto> ''application/json'')\<rparr>\<rparr>"

text \<open>
  The four statements every test method ends with: print the status code, print the
  decoded body, print the rule of fifty dashes, return the decoded body. Decoding
  raises on a body the decoder rejects, after the status code has been printed.
\<close>

definition report_response :: "response \<Rightarrow> 'w state \<Rightarrow> (exn + json) \<times> 'w state" where
  "report_response rsp s =
     (let s1 = py_print [Txt ''Status Code: '', Num (status_code rsp)] s
      in case response_json rsp of
           Inl e \<Rightarrow> (Inl e, s1)
         | Inr body \<Rightarrow>
             (let s2 = py_print [Txt ''Response: '', Dumps body] s1;
                  s3 = py_print [Txt (replicate 50 CHR ''-'')] s2
              in (response_json rsp, s3)))"

definition test_voice_command :: "'w transport \<Rightarrow> string \<Rightarrow> string \<Rightarrow> 'w state \<Rightarrow> (exn + json) \<times> 'w state" where
  "test_voice_command sv audio_url user_id s =
     (let u = base_url (self s) @ ''/webhook/voice-command'';
          payload = JObj [(''audio_url'', JStr audio_url), (''user_id'', JStr user_id)];
          s1 = py_print [Txt ''Testing voice command with audio: '', Txt audio_url] s;
          (r, s2) = session_post sv u payload s1
      in case r of Inl e \<Rightarrow> (Inl e, s2) | Inr rsp \<Rightarrow> report_response rsp s2)"

definition test_balance :: "'w transport \<Rightarrow> string \<Rightarrow> 'w state \<Rightarrow> (exn + json) \<times> 'w state" where
  "test_balance sv exchange s =
     (let u = base_url (self s) @ ''/webhook/balance'';
          ps = [(''exchange'', exchange)];
          s1 = py_print [Txt ''Testing balance retrieval for '', Txt exchange] s;
          (r, s2) = session_get sv u ps s1
      in case r of Inl e \<Rightarrow> (Inl e, s2) | Inr rsp \<Rightarrow> report_response rsp s2)"

definition test_orders :: "'w transport \<Rightarrow> string \<Rightarrow> 'w state \<Rightarrow> (exn + json) \<times> 'w state" where
  "test_orders sv exchange s =
     (let u = base_url (self s) @ ''/webhook/orders'';
          ps = [(''exchange'', exchange)];
          s1 = py_print [Txt ''Testing orders retrieval for '', Txt exchange] s;
          (r, s2) = session_get sv u ps s1
      in case r of Inl e \<Rightarrow> (Inl e, s2) | Inr rsp \<Rightarrow> report_response rsp s2)"

definition test_no_audio_input :: "'w transport \<Rightarrow> 'w state \<Rightarrow> (exn + json) \<times> 'w state" where
  "test_no_audio_input sv s =
     (let u = base_url (self s) @ ''/webhook/voice-command'';
          payload = JObj [(''user_id'', JStr ''test_user'')];
          s1 = py_print [Txt ''Testing voice command with no audio input''] s;
          (r, s2) = session_post sv u payload s1
      in case r of Inl e \<Rightarrow> (Inl e, s2) | Inr rsp \<Rightarrow> report_response rsp s2)"

definition test_empty_audio_url :: "'w transport \<Rightarrow> 'w state \<Rightarrow> (exn + json) \<times> 'w state" where
  "test_empty_audio_url sv s =
     (let u = base_url (self s) @ ''/webhook/voice-command'';
          payload = JObj [(''audio_url'', JStr ''''), (''user_id'', JStr ''test_user'')];
          s1 = py_print [Txt ''Testing voice command with empty audio URL''] s;
          (r, s2) = session_post sv u payload s1
      in case r of Inl e \<Rightarrow> (Inl e, s2) | Inr rsp \<Rightarrow> report_response rsp s2)"

definition test_malformed_request :: "'w transport \<Rightarrow> 'w state \<Rightarrow> (exn + json) \<times> 'w state" where
  "test_malformed_request sv s =
     (let u = base_url (self s) @ ''/webhook/voice-command'';
          payload = JObj [(''invalid_field'', JStr ''invalid_value''), (''another_invalid'', JInt 123)];
          s1 = py_print [Txt ''Testing voice command with malformed request''] s;
          (r, s2) = session_post sv u payload s1
      in case r of Inl e \<Rightarrow> (Inl e, s2) | Inr rsp \<Rightarrow> report_response rsp s2)"

definition test_passing_error_response :: "'w transport \<Rightarrow> 'w state \<Rightarrow> (exn + json) \<times> 'w state" where
  "test_passing_error_response sv s =
     (let u = base_url (self s) @ ''/webhook/voice-command'';
          payload = JObj [(''audio_url'', JStr ''https://github.com/TigranGalstyan/molecula_test_files/raw/refs/heads/main/non_trade.m4a''),
                          (''user_id'', JStr ''test_user'')];
          s1 = py_print [Txt ''Testing voice command that should trigger error response''] s;
          s1' = py_print [Txt ''Note: This tests the workflow's error handling paths''] s1;
          (r, s2) = session_post sv u payload s1'
      in case r of Inl e \<Rightarrow> (Inl e, s2) | Inr rsp \<Rightarrow> report_response rsp s2)"

text \<open>A call of one of the seven test methods, with its arguments.\<close>

datatype call =
    Test_voice_command string string
  | Test_balance string
  | Test_orders string
  | Test_no_audio_input
  | Test_empty_audio_url
  | Test_malformed_request
  | Test_passing_error_response

fun invoke :: "'w transport \<Rightarrow> call \<Rightarrow> 'w state \<Rightarrow> (exn + json) \<times> 'w state" where
  "invoke sv (Test_voice_command audio_url user_id) s = test_voice_command sv audio_url user_id s"
| "invoke sv (Test_balance exchange) s = test_balance sv exchange s"
| "invoke sv (Test_orders exchange) s = test_orders sv exchange s"
| "invoke sv Test_no_audio_input s = test_no_audio_input sv s"
| "invoke sv Test_empty_audio_url s = test_empty_audio_url sv s"
| "invoke sv Test_malformed_request s = test_malformed_request sv s"
| "invoke sv Test_passing_error_response s = test_passing_error_response sv s"

section \<open>The demonstrations\<close>

text \<open>
  The condition \<^verbatim>\<open>'success' in result and not result['success']\<close>: the subscript is
  evaluated only when the membership test holds.
\<close>

definition success_present_and_falsy :: "json \<Rightarrow> exn + bool" where
  "success_present_and_falsy result =
     (case py_in ''success'' result of
        Inl e \<Rightarrow> Inl e
      | Inr b \<Rightarrow>
          if b then (case py_getitem result ''success'' of
                       Inl e \<Rightarrow> Inl e
                     | Inr v \<Rightarrow> Inr (\<not> truthy v))
          else Inr False)"

text \<open>
  What \<^verbatim>\<open>demo_error_scenarios\<close> does with the result of a test method (the
  \<^verbatim>\<open>if\<close>/\<^verbatim>\<open>elif\<close>/\<^verbatim>\<open>else\<close> inside its \<^verbatim>\<open>try\<close>). An exception leaves the block
  with the lines printed so far.
\<close>

definition error_report :: "json \<Rightarrow> 'w state \<Rightarrow> (exn + unit) \<times> 'w state" where
  "error_report result s =
     (case py_in ''error'' result of
        Inl e \<Rightarrow> (Inl e, s)
      | Inr has_error \<Rightarrow>
          if has_error then
            (case py_get result ''error'' (JStr ''Unknown error'') of
               Inl e \<Rightarrow> (Inl e, s)
             | Inr err \<Rightarrow>
                 (let s1 = py_print [Txt ''   '', Uni [0x201A, 0xFA, 0xD6], Txt '' Error Caught: '', Fmt err] s
                  in case py_in ''message'' result of
                       Inl e \<Rightarrow> (Inl e, s1)
                     | Inr has_message \<Rightarrow>
                         if has_message then
                           (case py_get result ''message'' JNull of
                              Inl e \<Rightarrow> (Inl e, s1)
                            | Inr m \<Rightarrow>
                                (Inr (), py_print [Txt ''   '', Uni [0xF8FF, 0xFC, 0xEC, 0xF9], Txt '' Message: '', Fmt m] s1))
                         else (Inr (), s1)))
          else
            (case success_present_and_falsy result of
               Inl e \<Rightarrow> (Inl e, s)
             | Inr handled \<Rightarrow>
                 if handled then
                   (case py_get result ''message'' (JStr ''Unknown error'') of
                      Inl e \<Rightarrow> (Inl e, s)
                    | Inr m \<Rightarrow>
                        (Inr (), py_print [Txt ''   '', Uni [0x201A, 0xFA, 0xD6], Txt '' Error Handled: '', Fmt m] s))
                 else
                   (Inr (), py_print [Txt ''   '', Uni [0x201A, 0xF6, 0x2020, 0xD4, 0x220F, 0xE8],
                                      Txt '' Unexpected Response: '', Fmt result] s)))"

text \<open>The list \<^verbatim>\<open>error_tests\<close>: name, test method, expected error.\<close>

definition error_tests :: "(string \<times> call \<times> string) list" where
  "error_tests =
     [(''No Audio Input'', Test_no_audio_input, ''No audio input provided''),
      (''Empty Audio URL'', Test_empty_audio_url, ''No audio input provided''),
      (''Malformed Request'', Test_malformed_request, ''No audio input provided''),
      (''Passing Error Response'', Test_passing_error_response, ''Various error responses'')]"

text \<open>One turn of the loop of \<^verbatim>\<open>demo_error_scenarios\<close>; \<^verbatim>\<open>except Exception\<close> catches
  whatever the call or the inspection of its result raises.\<close>

definition error_scenario :: "'w transport \<Rightarrow> int \<Rightarrow> string \<times> call \<times> string \<Rightarrow> 'w state \<Rightarrow> 'w state" where
  "error_scenario sv i test s =
     (case test of (name, test_method, expected_error) \<Rightarrow>
        (let s1 = py_print [Txt [CHR 0x0A], Num i, Txt ''. '', Txt name] s;
             s2 = py_print [Txt ''   Expected: '', Txt expected_error] s1;
             (r, s3) = invoke sv test_method s2;
             s4 = (case r of
                     Inl e \<Rightarrow> py_print [Txt ''   '', Uni [0x201A, 0xF9, 0xE5], Txt '' Exception: '', FmtExn e] s3
                   | Inr result \<Rightarrow>
                       (case error_report result s3 of
                          (Inl e, s') \<Rightarrow> py_print [Txt ''   '', Uni [0x201A, 0xF9, 0xE5], Txt '' Exception: '', FmtExn e] s'
                        | (Inr u, s') \<Rightarrow> s'))
         in time_sleep 1 s4))"

fun error_loop :: "'w transport \<Rightarrow> int \<Rightarrow> (string \<times> call \<times> string) list \<Rightarrow> 'w state \<Rightarrow> 'w state" where
  "error_loop sv i [] s = s"
| "error_loop sv i (test # tests) s = error_loop sv (i + 1) tests (error_scenario sv i test s)"

definition demo_error_scenarios :: "'w transport \<Rightarrow> (string \<rightharpoonup> string) \<Rightarrow> 'w state \<Rightarrow> 'w state" where
  "demo_error_scenarios sv dflt s =
     (let s0 = s\<lparr>self := N8nVoiceTradingTester dflt ''https://tigrann.app.n8n.cloud''\<rparr>;
          s1 = py_print [Txt [CHR 0x0A], Uni [0xF8FF, 0xFC, 0xF6, 0xAE], Txt '' Testing Error Scenarios''] s0;
          s2 = py_print [Txt (replicate 40 CHR ''='')] s1;
          s3 = error_loop sv 1 error_tests s2
      in py_print [Txt [CHR 0x0A], Uni [0x201A, 0xFA, 0xD6], Txt '' Error scenario testing completed!''] s3)"

text \<open>
  What \<^verbatim>\<open>demo_voice_commands\<close> does with the result of \<^verbatim>\<open>test_voice_command\<close>. The
  four subscripts of the order line are evaluated left to right before the line is
  printed, so a failing one leaves only the success line.
\<close>

definition voice_report :: "json \<Rightarrow> 'w state \<Rightarrow> (exn + unit) \<times> 'w state" where
  "voice_report result s =
     (case py_get result ''success'' JNull of
        Inl e \<Rightarrow> (Inl e, s)
      | Inr ok \<Rightarrow>
          if truthy ok then
            (case py_get result ''trade_summary'' (JStr ''Command processed'') of
               Inl e \<Rightarrow> (Inl e, s)
             | Inr summary \<Rightarrow>
                 (let s1 = py_print [Txt ''   '', Uni [0x201A, 0xFA, 0xD6], Txt '' Success: '', Fmt summary] s
                  in case py_in ''order_result'' result of
                       Inl e \<Rightarrow> (Inl e, s1)
                     | Inr has_order \<Rightarrow>
                         if has_order then
                           (case py_getitem result ''order_result'' of
                              Inl e \<Rightarrow> (Inl e, s1)
                            | Inr order \<Rightarrow>
                           (case py_getitem order ''side'' of
                              Inl e \<Rightarrow> (Inl e, s1)
                            | Inr side \<Rightarrow>
                           (case py_getitem order ''quantity'' of
                              Inl e \<Rightarrow> (Inl e, s1)
                            | Inr quantity \<Rightarrow>
                           (case py_getitem order ''symbol'' of
                              Inl e \<Rightarrow> (Inl e, s1)
                            | Inr symbol \<Rightarrow>
                           (case py_getitem order ''price'' of
                              Inl e \<Rightarrow> (Inl e, s1)
                            | Inr price \<Rightarrow>
                                (Inr (), py_print [Txt ''   '', Uni [0xF8FF, 0xFC, 0xEC, 0xE4], Txt '' Order: '',
                                                   Fmt side, Txt '' '', Fmt quantity, Txt '' '', Fmt symbol,
                                                   Txt '' @ '', Fmt price] s1))))))
                         else (Inr (), s1)))
          else
            (case py_get result ''error'' (JStr ''Unknown error'') of
               Inl e \<Rightarrow> (Inl e, s)
             | Inr err \<Rightarrow>
                 (Inr (), py_print [Txt ''   '', Uni [0x201A, 0xF9, 0xE5], Txt '' Error: '', Fmt err] s)))"

text \<open>The list \<^verbatim>\<open>voice_commands\<close>: name, audio URL, expected transcription.\<close>

definition voice_commands :: "(string \<times> string \<times> string) list" where
  "voice_commands =
     [(''Buy Bitcoin Market Order'',
       ''https://github.com/TigranGalstyan/molecula_test_files/raw/refs/heads/main/buy_btc_binance.m4a'',
       ''Buy 0.5 Bitcoin on Binance at market price''),
      (''Sell Ethereum Limit Order'',
       ''https://github.com/TigranGalstyan/molecula_test_files/raw/refs/heads/main/sell_eth.m4a'',
       ''Sell 10 ETH at $3,200 on Coinbase''),
      (''Buy Bitcoin Limit Order'',
       ''https://github.com/TigranGalstyan/molecula_test_files/raw/refs/heads/main/buy_btc_limit.m4a'',
       ''Place a limit order to buy 1 BTC at $45,000 on Binance'')]"

text \<open>One turn of the loop of \<^verbatim>\<open>demo_voice_commands\<close>; the user identifier is the
  default of \<^verbatim>\<open>test_voice_command\<close>.\<close>

definition voice_scenario :: "'w transport \<Rightarrow> int \<Rightarrow> string \<times> string \<times> string \<Rightarrow> 'w state \<Rightarrow> 'w state" where
  "voice_scenario sv i command s =
     (case command of (name, audio_url, expected_transcription) \<Rightarrow>
        (let s1 = py_print [Txt [CHR 0x0A], Num i, Txt ''. '', Txt name] s;
             s2 = py_print [Txt ''   Expected: '', Txt [CHR 0x27], Txt expected_transcription, Txt [CHR 0x27]] s1;
             (r, s3) = test_voice_command sv audio_url ''test_user'' s2;
             s4 = (case r of
                     Inl e \<Rightarrow> py_print [Txt ''   '', Uni [0x201A, 0xF9, 0xE5], Txt '' Exception: '', FmtExn e] s3
                   | Inr result \<Rightarrow>
                       (case voice_report result s3 of
                          (Inl e, s') \<Rightarrow> py_print [Txt ''   '', Uni [0x201A, 0xF9, 0xE5], Txt '' Exception: '', FmtExn e] s'
                        | (Inr u, s') \<Rightarrow> s'))
         in time_sleep 1 s4))"

fun voice_loop :: "'w transport \<Rightarrow> int \<Rightarrow> (string \<times> string \<times> string) list \<Rightarrow> 'w state \<Rightarrow> 'w state" where
  "voice_loop sv i [] s = s"
| "voice_loop sv i (command # commands) s = voice_loop sv (i + 1) commands (voice_scenario sv i command s)"

definition demo_voice_commands :: "'w transport \<Rightarrow> (string \<rightharpoonup> string) \<Rightarrow> 'w state \<Rightarrow> 'w state" where
  "demo_voice_commands sv dflt s =
     (let s0 = s\<lparr>self := N8nVoiceTradingTester dflt ''https://tigrann.app.n8n.cloud''\<rparr>;
          s1 = py_print [Uni [0xF8FF, 0xFC, 0xE9, 0xA7], Txt '' Voice-Activated Trading System - n8n Demo''] s0;
          s2 = py_print [Txt (replicate 60 CHR ''='')] s1;
          s3 = py_print [Txt [CHR 0x0A], Uni [0xF8FF, 0xFC, 0xEC, 0xF9], Txt '' Testing Voice Commands''] s2;
          s4 = py_print [Txt (replicate 30 CHR ''-'')] s3
      in voice_loop sv 1 voice_commands s4)"

section \<open>Reading a run\<close>

text \<open>The requests and the printed lines among a list of events, in order.\<close>

fun requests_of :: "event list \<Rightarrow> request list" where
  "requests_of [] = []"
| "requests_of (Sent r # es) = r # requests_of es"
| "requests_of (Printed l # es) = requests_of es"
| "requests_of (Slept n # es) = requests_of es"

text \<open>The events a program adds to the trace when run from \<open>s\<close>, and the requests among
  them.\<close>

definition new_events :: "('w state \<Rightarrow> 'a \<times> 'w state) \<Rightarrow> 'w state \<Rightarrow> event list" where
  "new_events f s = drop (length (trace s)) (trace (snd (f s)))"

definition issued :: "('w state \<Rightarrow> 'a \<times> 'w state) \<Rightarrow> 'w state \<Rightarrow> request list" where
  "issued f s = requests_of (new_events f s)"

text \<open>Test methods called one after the other on the same tester, whatever each returns
  or raises.\<close>

fun run_calls :: "'w transport \<Rightarrow> call list \<Rightarrow> 'w state \<Rightarrow> 'w state" where
  "run_calls sv [] s = s"
| "run_calls sv (c # cs) s = run_calls sv cs (snd (invoke sv c s))"

text \<open>
  Two transports and a starting state for the worked examples. The first answers
  every request with status 200 and a JSON object, the second with status 502 and a
  body that is not JSON; both count the requests they have served.
\<close>

definition ok_transport :: "nat transport" where
  "ok_transport w req =
     (Inr \<lparr>status_code = 200, decoded = Some (JObj [(''success'', JBool True)])\<rparr>, Suc w)"

definition html_transport :: "nat transport" where
  "html_transport w req = (Inr \<lparr>status_code = 502, decoded = None\<rparr>, Suc w)"

text \<open>
  Two more transports: one answers every request with the body \<^verbatim>\<open>NaN\<close>, which
  Python's decoder accepts; the other answers with the number of requests it has
  served before.
\<close>

definition nan_transport :: "nat transport" where
  "nan_transport w req = (Inr \<lparr>status_code = 200, decoded = Some (JFloat NaN)\<rparr>, Suc w)"


definition start :: "nat state" where
  "start = \<lparr>self = N8nVoiceTradingTester Map.empty ''https://tigrann.app.n8n.cloud/'', world = 0, trace = []\<rparr>"

text \<open>Whether some printed line among the events holds the literal text \<open>label\<close>.\<close>

definition says :: "string \<Rightarrow> event list \<Rightarrow> bool" where
  "says label es = list_ex (\<lambda>e. case e of Printed l \<Rightarrow> Txt label \<in> set l | _ \<Rightarrow> False) es"

section \<open>A normal form of the test methods\<close>

text \<open>
  The seven methods differ in the request they build and in the lines they print
  before sending it, and agree in everything after. The next three functions name
  these parts; \<open>invoke_eq\<close> below proves that every method, as defined above, is their
  composition. They serve the proofs: no property below is stated in their terms.
\<close>

fun request_of :: "tester \<Rightarrow> call \<Rightarrow> request" where
  "request_of t (Test_voice_command a u) =
     \<lparr>req_method = POST, req_url = base_url t @ ''/webhook/voice-command'', req_headers = headers (session t),
      req_params = [], req_json = Some (JObj [(''audio_url'', JStr a), (''user_id'', JStr u)])\<rparr>"
| "request_of t (Test_balance x) =
     \<lparr>req_method = GET, req_url = base_url t @ ''/webhook/balance'', req_headers = headers (session t),
      req_params = [(''exchange'', x)], req_json = None\<rparr>"
| "request_of t (Test_orders x) =
     \<lparr>req_method = GET, req_url = base_url t @ ''/webhook/orders'', req_headers = headers (session t),
      req_params = [(''exchange'', x)], req_json = None\<rparr>"
| "request_of t Test_no_audio_input =
     \<lparr>req_method = POST, req_url = base_url t @ ''/webhook/voice-command'', req_headers = headers (session t),
      req_params = [], req_json = Some (JObj [(''user_id'', JStr ''test_user'')])\<rparr>"
| "request_of t Test_empty_audio_url =
     \<lparr>req_method = POST, req_url = base_url t @ ''/webhook/voice-command'', req_headers = headers (session t),
      req_params = [], req_json = Some (JObj [(''audio_url'', JStr ''''), (''user_id'', JStr ''test_user'')])\<rparr>"
| "request_of t Test_malformed_request =
     \<lparr>req_method = POST, req_url = base_url t @ ''/webhook/voice-command'', req_headers = headers (session t),
      req_params = [],
      req_json = Some (JObj [(''invalid_field'', JStr ''invalid_value''), (''another_invalid'', JInt 123)])\<rparr>"
| "request_of t Test_passing_error_response =
     \<lparr>req_method = POST, req_url = base_url t @ ''/webhook/voice-command'', req_headers = headers (session t),
      req_params = [],
      req_json = Some (JObj [(''audio_url'', JStr ''https://github.com/TigranGalstyan/molecula_test_files/raw/refs/heads/main/non_trade.m4a''),
                             (''user_id'', JStr ''test_user'')])\<rparr>"

fun announced :: "call \<Rightarrow> line list" where
  "announced (Test_voice_command a u) = [[Txt ''Testing voice command with audio: '', Txt a]]"
| "announced (Test_balance x) = [[Txt ''Testing balance retrieval for '', Txt x]]"
| "announced (Test_orders x) = [[Txt ''Testing orders retrieval for '', Txt x]]"
| "announced Test_no_audio_input = [[Txt ''Testing voice command with no audio input'']]"
| "announced Test_empty_audio_url = [[Txt ''Testing voice command with empty audio URL'']]"
| "announced Test_malformed_request = [[Txt ''Testing voice command with malformed request'']]"
| "announced Test_passing_error_response =
     [[Txt ''Testing voice command that should trigger error response''],
      [Txt ''Note: This tests the workflow's error handling paths'']]"

definition answered :: "response \<Rightarrow> (exn + json) \<times> event list" where
  "answered rsp =
     (case decoded rsp of
        None \<Rightarrow> (Inl JSONDecodeError, [Printed [Txt ''Status Code: '', Num (status_code rsp)]])
      | Some body \<Rightarrow>
          (Inr body, [Printed [Txt ''Status Code: '', Num (status_code rsp)],
                      Printed [Txt ''Response: '', Dumps body],
                      Printed [Txt (replicate 50 CHR ''-'')]]))"

lemmas method_defs =
  test_voice_command_def test_balance_def test_orders_def test_no_audio_input_def
  test_empty_audio_url_def test_malformed_request_def test_passing_error_response_def
  session_post_def session_get_def report_response_def response_json_def py_print_def

lemmas example_defs =
  method_defs issued_def new_events_def ok_transport_def html_transport_def start_def
  N8nVoiceTradingTester_def rstrip_def Let_def

lemma invoke_eq:
  "invoke sv c s =
     (let req = request_of (self s) c;
          before = trace s @ map Printed (announced c) @ [Sent req]
      in case sv (world s) req of
           (Inl e, w') \<Rightarrow> (Inl e, s\<lparr>world := w', trace := before\<rparr>)
         | (Inr rsp, w') \<Rightarrow> (fst (answered rsp), s\<lparr>world := w', trace := before @ snd (answered rsp)\<rparr>))"
  by (cases c) (simp_all add: method_defs answered_def Let_def split: prod.splits sum.splits option.splits)

lemma requests_of_append: "requests_of (xs @ ys) = requests_of xs @ requests_of ys"
  by (induction xs rule: requests_of.induct) simp_all

lemma requests_of_Printed: "requests_of (map Printed ls) = []"
  by (induction ls) simp_all

lemma requests_of_answered: "requests_of (snd (answered rsp)) = []"
  by (simp add: answered_def split: option.splits)


lemma trace_invoke:
  "\<exists>after. trace (snd (invoke sv c s)) =
              trace s @ map Printed (announced c) @ Sent (request_of (self s) c) # after
            \<and> requests_of after = []"
  by (simp add: invoke_eq Let_def requests_of_answered split: prod.splits sum.splits)

lemma new_events_invoke:
  "\<exists>after. new_events (invoke sv c) s = map Printed (announced c) @ Sent (request_of (self s) c) # after
            \<and> requests_of after = []"
  using trace_invoke [of sv c s] by (auto simp: new_events_def)

lemma issued_invoke: "issued (invoke sv c) s = [request_of (self s) c]"
  using new_events_invoke [of sv c s]
  by (auto simp: issued_def requests_of_append requests_of_Printed)

lemma self_invoke: "self (snd (invoke sv c s)) = self s"
  by (simp add: invoke_eq Let_def split: prod.splits sum.splits)

lemma fst_invoke:
  "fst (invoke sv c s) =
     (case fst (sv (world s) (request_of (self s) c)) of
        Inl e \<Rightarrow> Inl e
      | Inr rsp \<Rightarrow> fst (answered rsp))"
  by (simp add: invoke_eq Let_def split: prod.splits sum.splits)

lemma self_run_calls: "self (run_calls sv cs s) = self s"
  by (induction cs arbitrary: s) (simp_all add: self_invoke)

lemma requests_run_calls:
  "requests_of (trace (run_calls sv cs s)) = requests_of (trace s) @ map (request_of (self s)) cs"
proof (induction cs arbitrary: s)
  case Nil
  show ?case by simp
next
  case (Cons c cs)
  obtain after where t: "trace (snd (invoke sv c s)) =
      trace s @ map Printed (announced c) @ Sent (request_of (self s) c) # after"
    and a: "requests_of after = []"
    using trace_invoke [of sv c s] by blast
  show ?case
    by (simp add: Cons.IH self_invoke t a requests_of_append requests_of_Printed)
qed

lemma key_present: "(k \<in> fst ` set kvs) = (\<exists>v. map_of kvs k = Some v)"
  by (induction kvs) auto

subsection \<open>Stripping the base URL\<close>

lemma endswith_single: "endswith xs [c] = (xs \<noteq> [] \<and> last xs = c)"
  by (cases xs rule: rev_cases) (simp_all add: endswith_def)

lemma rstrip_slash_append: "rstrip (b @ ''/'') ''/'' = rstrip b ''/''"
  by (simp add: rstrip_def)

lemma rstrip_slash_no_trailing: "\<not> endswith (rstrip b ''/'') ''/''"
proof
  define ys where "ys = dropWhile (\<lambda>c. c \<in> set ''/'') (rev b)"
  assume "endswith (rstrip b ''/'') ''/''"
  then have ne: "ys \<noteq> []" and l: "last (rev ys) = CHR ''/''"
    by (simp_all add: endswith_single rstrip_def ys_def)
  from ne have "hd ys \<notin> set ''/''"
    unfolding ys_def by (rule hd_dropWhile)
  moreover have "last (rev ys) = hd ys"
    using ne by (simp add: last_rev)
  ultimately show False using l by simp
qed

lemma takeWhile_slash: "\<exists>n. takeWhile (\<lambda>c. c \<in> set ''/'') xs = replicate n CHR ''/''"
proof (induction xs)
  case Nil
  show ?case by simp
next
  case (Cons x xs)
  then obtain n where n: "takeWhile (\<lambda>c. c \<in> set ''/'') xs = replicate n CHR ''/''"
    by blast
  show ?case
  proof (cases "x = CHR ''/''")
    case True
    with n have "takeWhile (\<lambda>c. c \<in> set ''/'') (x # xs) = replicate (Suc n) CHR ''/''"
      by simp
    then show ?thesis by blast
  next
    case False
    then have "takeWhile (\<lambda>c. c \<in> set ''/'') (x # xs) = replicate 0 CHR ''/''"
      by simp
    then show ?thesis by blast
  qed
qed

lemma rstrip_slash_decompose: "\<exists>n. b = rstrip b ''/'' @ replicate n CHR ''/''"
proof -
  define P where "P = (\<lambda>c. c \<in> set ''/'')"
  obtain n where n: "takeWhile P (rev b) = replicate n CHR ''/''"
    unfolding P_def using takeWhile_slash by blast
  have "b = rev (takeWhile P (rev b) @ dropWhile P (rev b))"
    by simp
  also have "\<dots> = rev (dropWhile P (rev b)) @ rev (takeWhile P (rev b))"
    by (simp only: rev_append)
  also have "\<dots> = rev (dropWhile P (rev b)) @ replicate n CHR ''/''"
    by (simp only: n rev_replicate)
  also have "\<dots> = rstrip b ''/'' @ replicate n CHR ''/''"
    by (simp only: rstrip_def P_def)
  finally show ?thesis ..
qed

section \<open>The claims\<close>

text \<open>
  Claim C1, as amended. The body POSTed to \<^verbatim>\<open>/webhook/voice-command\<close> is always a JSON
  object, but only three of the five methods that post there send both keys:
  \<^verbatim>\<open>test_voice_command(audio_url, user_id)\<close> sends exactly
  \<^verbatim>\<open>{"audio_url": audio_url, "user_id": user_id}\<close>, and \<^verbatim>\<open>test_empty_audio_url\<close> and
  \<^verbatim>\<open>test_passing_error_response\<close> send an object with exactly these two keys;
  \<^verbatim>\<open>test_no_audio_input\<close> sends \<^verbatim>\<open>{"user_id": "test_user"}\<close>, without the audio URL, and
  \<^verbatim>\<open>test_malformed_request\<close> sends an object with neither key.
\<close>

theorem voice_command_payloads:
  "map (\<lambda>r. (req_url r, req_json r)) (issued (test_voice_command sv a u) s) =
      [(base_url (self s) @ ''/webhook/voice-command'',
        Some (JObj [(''audio_url'', JStr a), (''user_id'', JStr u)]))]
   \<and> map (\<lambda>r. (req_url r, req_json r)) (issued (test_empty_audio_url sv) s) =
      [(base_url (self s) @ ''/webhook/voice-command'',
        Some (JObj [(''audio_url'', JStr ''''), (''user_id'', JStr ''test_user'')]))]
   \<and> map (\<lambda>r. (req_url r, req_json r)) (issued (test_passing_error_response sv) s) =
      [(base_url (self s) @ ''/webhook/voice-command'',
        Some (JObj [(''audio_url'', JStr ''https://github.com/TigranGalstyan/molecula_test_files/raw/refs/heads/main/non_trade.m4a''),
                    (''user_id'', JStr ''test_user'')]))]
   \<and> map (\<lambda>r. (req_url r, req_json r)) (issued (test_no_audio_input sv) s) =
      [(base_url (self s) @ ''/webhook/voice-command'',
        Some (JObj [(''user_id'', JStr ''test_user'')]))]
   \<and> map (\<lambda>r. (req_url r, req_json r)) (issued (test_malformed_request sv) s) =
      [(base_url (self s) @ ''/webhook/voice-command'',
        Some (JObj [(''invalid_field'', JStr ''invalid_value''), (''another_invalid'', JInt 123)]))]"
  using issued_invoke [of sv "Test_voice_command a u" s]
        issued_invoke [of sv Test_no_audio_input s]
        issued_invoke [of sv Test_empty_audio_url s]
        issued_invoke [of sv Test_malformed_request s]
        issued_invoke [of sv Test_passing_error_response s]
  by (simp add: issued_def new_events_def)

text \<open>
  Claim C1 as stated fails: the one request of \<^verbatim>\<open>test_no_audio_input\<close> goes to the
  voice-command path and its body has no key \<^verbatim>\<open>audio_url\<close>.
\<close>

theorem no_audio_payload_lacks_audio_url:
  "map req_url (issued (test_no_audio_input ok_transport) start) =
      [''https://tigrann.app.n8n.cloud/webhook/voice-command'']
   \<and> map req_json (issued (test_no_audio_input ok_transport) start) =
      [Some (JObj [(''user_id'', JStr ''test_user'')])]
   \<and> py_in ''audio_url'' (JObj [(''user_id'', JStr ''test_user'')]) = Inr False"
  by (simp add: example_defs)

text \<open>
  Claim C2. On a JSON object, the inspection in \<^verbatim>\<open>demo_error_scenarios\<close> raises nothing
  and prints by the keys alone: the line "Error Caught" if and only if the key
  \<^verbatim>\<open>error\<close> is present; otherwise the line "Error Handled" if and only if the key
  \<^verbatim>\<open>success\<close> is present with a falsy value; and the line "Unexpected Response" in
  exactly the remaining cases.
\<close>

theorem error_report_classifies_by_keys:
  "fst (error_report (JObj kvs) s) = Inr ()
   \<and> (says '' Error Caught: '' (new_events (error_report (JObj kvs)) s)
        \<longleftrightarrow> ''error'' \<in> set (map fst kvs))
   \<and> (says '' Error Handled: '' (new_events (error_report (JObj kvs)) s)
        \<longleftrightarrow> ''error'' \<notin> set (map fst kvs) \<and> (\<exists>v. map_of kvs ''success'' = Some v \<and> \<not> truthy v))
   \<and> (says '' Unexpected Response: '' (new_events (error_report (JObj kvs)) s)
        \<longleftrightarrow> ''error'' \<notin> set (map fst kvs) \<and> \<not> (\<exists>v. map_of kvs ''success'' = Some v \<and> \<not> truthy v))"
proof (cases "''error'' \<in> set (map fst kvs)")
  case True
  then show ?thesis
    by (simp add: error_report_def new_events_def says_def py_print_def Let_def)
next
  case False
  show ?thesis
  proof (cases "map_of kvs ''success''")
    case None
    with False show ?thesis
      by (simp add: error_report_def success_present_and_falsy_def new_events_def says_def
          py_print_def key_present)
  next
    case (Some v)
    with False show ?thesis
      by (simp add: error_report_def success_present_and_falsy_def new_events_def says_def
          py_print_def key_present)
  qed
qed

theorem error_report_classifies_by_keys_witness:
  "fst (error_report (JObj [(''success'', JBool False), (''message'', JStr ''No audio input provided'')]) start) = Inr ()
   \<and> says '' Error Handled: ''
        (new_events (error_report (JObj [(''success'', JBool False), (''message'', JStr ''No audio input provided'')])) start)
   \<and> \<not> says '' Error Caught: ''
        (new_events (error_report (JObj [(''success'', JBool False), (''message'', JStr ''No audio input provided'')])) start)
   \<and> \<not> says '' Unexpected Response: ''
        (new_events (error_report (JObj [(''success'', JBool False), (''message'', JStr ''No audio input provided'')])) start)"
  using error_report_classifies_by_keys
    [of "[(''success'', JBool False), (''message'', JStr ''No audio input provided'')]" start]
  by simp

text \<open>
  Claim C3. Each test method issues its one request to a fixed path under the base
  URL of the tester: the five voice-command tests POST a JSON body to
  \<^verbatim>\<open>{base_url}/webhook/voice-command\<close>, and \<^verbatim>\<open>test_balance\<close> and \<^verbatim>\<open>test_orders\<close> GET
  \<^verbatim>\<open>{base_url}/webhook/balance\<close> and \<^verbatim>\<open>{base_url}/webhook/orders\<close> with the exchange name
  as the only query parameter, \<^verbatim>\<open>exchange\<close>.
\<close>

theorem fixed_url_paths:
  "(\<exists>payload. issued (test_voice_command sv a u) s =
      [\<lparr>req_method = POST, req_url = base_url (self s) @ ''/webhook/voice-command'',
        req_headers = headers (session (self s)), req_params = [], req_json = Some payload\<rparr>])
   \<and> issued (test_balance sv x) s =
      [\<lparr>req_method = GET, req_url = base_url (self s) @ ''/webhook/balance'',
        req_headers = headers (session (self s)), req_params = [(''exchange'', x)], req_json = None\<rparr>]
   \<and> issued (test_orders sv x) s =
      [\<lparr>req_method = GET, req_url = base_url (self s) @ ''/webhook/orders'',
        req_headers = headers (session (self s)), req_params = [(''exchange'', x)], req_json = None\<rparr>]
   \<and> (\<exists>payload. issued (test_no_audio_input sv) s =
      [\<lparr>req_method = POST, req_url = base_url (self s) @ ''/webhook/voice-command'',
        req_headers = headers (session (self s)), req_params = [], req_json = Some payload\<rparr>])
   \<and> (\<exists>payload. issued (test_empty_audio_url sv) s =
      [\<lparr>req_method = POST, req_url = base_url (self s) @ ''/webhook/voice-command'',
        req_headers = headers (session (self s)), req_params = [], req_json = Some payload\<rparr>])
   \<and> (\<exists>payload. issued (test_malformed_request sv) s =
      [\<lparr>req_method = POST, req_url = base_url (self s) @ ''/webhook/voice-command'',
        req_headers = headers (session (self s)), req_params = [], req_json = Some payload\<rparr>])
   \<and> (\<exists>payload. issued (test_passing_error_response sv) s =
      [\<lparr>req_method = POST, req_url = base_url (self s) @ ''/webhook/voice-command'',
        req_headers = headers (session (self s)), req_params = [], req_json = Some payload\<rparr>])"
  using issued_invoke [of sv "Test_voice_command a u" s]
        issued_invoke [of sv "Test_balance x" s]
        issued_invoke [of sv "Test_orders x" s]
        issued_invoke [of sv Test_no_audio_input s]
        issued_invoke [of sv Test_empty_audio_url s]
        issued_invoke [of sv Test_malformed_request s]
        issued_invoke [of sv Test_passing_error_response s]
  by (simp add: issued_def new_events_def)



text \<open>
  Claim C5. When the result of a voice command is an object with a truthy \<^verbatim>\<open>success\<close>
  and an \<^verbatim>\<open>order_result\<close> that is an object holding the keys \<^verbatim>\<open>side\<close>, \<^verbatim>\<open>quantity\<close>,
  \<^verbatim>\<open>symbol\<close> and \<^verbatim>\<open>price\<close>, the report of \<^verbatim>\<open>demo_voice_commands\<close> raises nothing, so no
  \<^verbatim>\<open>KeyError\<close>, and its order line is made of the values of exactly these four keys.
\<close>

theorem order_fields_read_without_key_error:
  assumes "map_of kvs ''success'' = Some ok" and "truthy ok"
    and "map_of kvs ''order_result'' = Some (JObj order)"
    and "map_of order ''side'' = Some side"
    and "map_of order ''quantity'' = Some quantity"
    and "map_of order ''symbol'' = Some symbol"
    and "map_of order ''price'' = Some price"
  shows "voice_report (JObj kvs) s =
     (Inr (),
      py_print [Txt ''   '', Uni [0xF8FF, 0xFC, 0xEC, 0xE4], Txt '' Order: '',
                Fmt side, Txt '' '', Fmt quantity, Txt '' '', Fmt symbol, Txt '' @ '', Fmt price]
        (py_print [Txt ''   '', Uni [0x201A, 0xFA, 0xD6], Txt '' Success: '',
                   Fmt (case map_of kvs ''trade_summary'' of
                          None \<Rightarrow> JStr ''Command processed'' | Some t \<Rightarrow> t)] s))"
  using assms by (simp add: voice_report_def key_present Let_def)

theorem order_fields_read_without_key_error_witness:
  "map_of [(''success'', JBool True),
           (''order_result'', JObj [(''side'', JStr ''buy''), (''quantity'', JFloat (Finite False 1 (- 1))),
                                    (''symbol'', JStr ''BTCUSDT''), (''price'', JNull)])] ''success'' = Some (JBool True)
   \<and> truthy (JBool True)
   \<and> voice_report
        (JObj [(''success'', JBool True),
               (''order_result'', JObj [(''side'', JStr ''buy''), (''quantity'', JFloat (Finite False 1 (- 1))),
                                        (''symbol'', JStr ''BTCUSDT''), (''price'', JNull)])]) start =
     (Inr (),
      py_print [Txt ''   '', Uni [0xF8FF, 0xFC, 0xEC, 0xE4], Txt '' Order: '',
                Fmt (JStr ''buy''), Txt '' '', Fmt (JFloat (Finite False 1 (- 1))), Txt '' '',
                Fmt (JStr ''BTCUSDT''), Txt '' @ '', Fmt JNull]
        (py_print [Txt ''   '', Uni [0x201A, 0xFA, 0xD6], Txt '' Success: '',
                   Fmt (JStr ''Command processed'')] start))"
proof -
  have h1: "map_of [(''success'', JBool True),
           (''order_result'', JObj [(''side'', JStr ''buy''), (''quantity'', JFloat (Finite False 1 (- 1))),
                                    (''symbol'', JStr ''BTCUSDT''), (''price'', JNull)])] ''success'' = Some (JBool True)"
    by simp
  have h2: "truthy (JBool True)"
    by simp
  have h3: "map_of [(''success'', JBool True),
           (''order_result'', JObj [(''side'', JStr ''buy''), (''quantity'', JFloat (Finite False 1 (- 1))),
                                    (''symbol'', JStr ''BTCUSDT''), (''price'', JNull)])] ''order_result'' =
        Some (JObj [(''side'', JStr ''buy''), (''quantity'', JFloat (Finite False 1 (- 1))),
                    (''symbol'', JStr ''BTCUSDT''), (''price'', JNull)])"
    by simp
  have h4: "map_of [(''side'', JStr ''buy''), (''quantity'', JFloat (Finite False 1 (- 1))),
                    (''symbol'', JStr ''BTCUSDT''), (''price'', JNull)] ''side'' = Some (JStr ''buy'')"
    by simp
  have h5: "map_of [(''side'', JStr ''buy''), (''quantity'', JFloat (Finite False 1 (- 1))),
                    (''symbol'', JStr ''BTCUSDT''), (''price'', JNull)] ''quantity'' =
        Some (JFloat (Finite False 1 (- 1)))"
    by simp
  have h6: "map_of [(''side'', JStr ''buy''), (''quantity'', JFloat (Finite False 1 (- 1))),
                    (''symbol'', JStr ''BTCUSDT''), (''price'', JNull)] ''symbol'' = Some (JStr ''BTCUSDT'')"
    by simp
  have h7: "map_of [(''side'', JStr ''buy''), (''quantity'', JFloat (Finite False 1 (- 1))),
                    (''symbol'', JStr ''BTCUSDT''), (''price'', JNull)] ''price'' = Some JNull"
    by simp
  show ?thesis
    using h1 h2 order_fields_read_without_key_error [OF h1 h2 h3 h4 h5 h6 h7, of start] by simp
qed

text \<open>
  Claim C6. A call of a test method issues exactly one request, whatever the
  transport answers: a response of any status code and body, or an exception.
\<close>

theorem one_request_per_call: "length (issued (invoke sv c) s) = 1"
  by (simp add: issued_invoke)




text \<open>
  Claim C8. The constructor strips every trailing slash of the base URL: a base URL
  and the same with one more slash give the same tester, hence the same requests in
  every test method; the stored base URL does not end with a slash, and the given
  one is the stored one followed by slashes only.
\<close>

theorem base_url_trailing_slashes_stripped:
  "N8nVoiceTradingTester dflt (b @ ''/'') = N8nVoiceTradingTester dflt b
   \<and> issued (invoke sv c) \<lparr>self = N8nVoiceTradingTester dflt (b @ ''/''), world = w, trace = tr\<rparr> =
     issued (invoke sv c) \<lparr>self = N8nVoiceTradingTester dflt b, world = w, trace = tr\<rparr>
   \<and> \<not> endswith (base_url (N8nVoiceTradingTester dflt b)) ''/''
   \<and> (\<exists>n. b = base_url (N8nVoiceTradingTester dflt b) @ replicate n CHR ''/'')"
proof -
  have "N8nVoiceTradingTester dflt (b @ ''/'') = N8nVoiceTradingTester dflt b"
    by (simp add: N8nVoiceTradingTester_def rstrip_slash_append)
  moreover have "\<not> endswith (base_url (N8nVoiceTradingTester dflt b)) ''/''"
    by (simp add: N8nVoiceTradingTester_def rstrip_slash_no_trailing)
  moreover have "\<exists>n. b = base_url (N8nVoiceTradingTester dflt b) @ replicate n CHR ''/''"
    using rstrip_slash_decompose [of b] by (simp add: N8nVoiceTradingTester_def)
  ultimately show ?thesis by simp
qed

text \<open>
  Claim C9, as amended. Every test method sends one request; when the decoder raises
  on the body of the response to it, the method raises that decoding error instead
  of returning; and when a test method returns a value, its request was answered by
  a response and that value is what the decoder made of the body. The decoder is
  Python's, which accepts more than JSON, so the value returned need not be one
  that JSON can express.
\<close>

theorem non_json_body_raises:
  "\<exists>req. issued (invoke sv c) s = [req]
     \<and> (\<forall>rsp. fst (sv (world s) req) = Inr rsp \<and> decoded rsp = None \<longrightarrow>
           fst (invoke sv c s) = Inl JSONDecodeError)
     \<and> (\<forall>v. fst (invoke sv c s) = Inr v \<longrightarrow>
           (\<exists>rsp. fst (sv (world s) req) = Inr rsp \<and> decoded rsp = Some v))"
proof -
  have "issued (invoke sv c) s = [request_of (self s) c]"
    by (simp add: issued_invoke)
  moreover have "\<forall>rsp. fst (sv (world s) (request_of (self s) c)) = Inr rsp \<and> decoded rsp = None \<longrightarrow>
           fst (invoke sv c s) = Inl JSONDecodeError"
    by (simp add: fst_invoke answered_def split: sum.splits option.splits)
  moreover have "\<forall>v. fst (invoke sv c s) = Inr v \<longrightarrow>
           (\<exists>rsp. fst (sv (world s) (request_of (self s) c)) = Inr rsp \<and> decoded rsp = Some v)"
    by (simp add: fst_invoke answered_def split: sum.splits option.splits)
  ultimately show ?thesis by blast
qed

theorem non_json_body_raises_witness:
  "issued (invoke html_transport Test_no_audio_input) start =
     [\<lparr>req_method = POST, req_url = ''https://tigrann.app.n8n.cloud/webhook/voice-command'',
       req_headers = [''Content-Type'' \<mapsto> ''application/json''],
       req_params = [], req_json = Some (JObj [(''user_id'', JStr ''test_user'')])\<rparr>]
   \<and> fst (html_transport (world start)
       \<lparr>req_method = POST, req_url = ''https://tigrann.app.n8n.cloud/webhook/voice-command'',
         req_headers = [''Content-Type'' \<mapsto> ''application/json''],
         req_params = [], req_json = Some (JObj [(''user_id'', JStr ''test_user'')])\<rparr>) =
     Inr \<lparr>status_code = 502, decoded = None\<rparr>
   \<and> decoded \<lparr>status_code = 502, decoded = None\<rparr> = None
   \<and> fst (invoke html_transport Test_no_audio_input start) = Inl JSONDecodeError"
proof -
  define req0 where "req0 =
     \<lparr>req_method = POST, req_url = ''https://tigrann.app.n8n.cloud/webhook/voice-command'',
       req_headers = [''Content-Type'' \<mapsto> ''application/json''],
       req_params = [], req_json = Some (JObj [(''user_id'', JStr ''test_user'')])\<rparr>"
  define rsp0 where "rsp0 = \<lparr>status_code = 502, decoded = None\<rparr>"
  have h1: "issued (invoke html_transport Test_no_audio_input) start = [req0]"
    by (simp add: example_defs req0_def)
  have h2: "fst (html_transport (world start) req0) = Inr rsp0"
    by (simp add: html_transport_def rsp0_def)
  have h3: "decoded rsp0 = None"
    by (simp add: rsp0_def)
  obtain req where a: "issued (invoke html_transport Test_no_audio_input) start = [req]"
    and b: "\<forall>rsp. fst (html_transport (world start) req) = Inr rsp \<and> decoded rsp = None \<longrightarrow>
           fst (invoke html_transport Test_no_audio_input start) = Inl JSONDecodeError"
    using non_json_body_raises [of html_transport Test_no_audio_input start] by blast
  from a h1 have "req = req0" by simp
  with b h2 h3 have "fst (invoke html_transport Test_no_audio_input start) = Inl JSONDecodeError"
    by blast
  with h1 h2 h3 show ?thesis
    by (simp add: req0_def rsp0_def)
qed

text \<open>
  Claim C9 as stated fails: a body that reads \<^verbatim>\<open>NaN\<close> is not valid JSON, yet the decoder
  accepts it, and \<^verbatim>\<open>test_balance\<close> returns the float not-a-number, which is no JSON
  value, instead of raising.
\<close>

theorem nan_body_is_returned:
  "\<not> json_value (JFloat NaN)
   \<and> fst (nan_transport (world start)
       \<lparr>req_method = GET, req_url = ''https://tigrann.app.n8n.cloud/webhook/balance'',
         req_headers = [''Content-Type'' \<mapsto> ''application/json''],
         req_params = [(''exchange'', ''binance'')], req_json = None\<rparr>) =
     Inr \<lparr>status_code = 200, decoded = Some (JFloat NaN)\<rparr>
   \<and> fst (invoke nan_transport (Test_balance ''binance'') start) = Inr (JFloat NaN)"
  by (simp add: example_defs nan_transport_def)

text \<open>
  Claim C10. On a tester built by the constructor, every request of every sequence of
  test methods carries the header \<^verbatim>\<open>Content-Type: application/json\<close>: the constructor
  sets it on the session, and the tester, with its session headers, is the same after
  the calls as the constructor built it.
\<close>

theorem content_type_on_every_request:
  "list_all (\<lambda>r. req_headers r ''Content-Type'' = Some ''application/json'')
     (requests_of (trace (run_calls sv cs \<lparr>self = N8nVoiceTradingTester dflt b, world = w, trace = []\<rparr>)))
   \<and> length (requests_of (trace (run_calls sv cs \<lparr>self = N8nVoiceTradingTester dflt b, world = w, trace = []\<rparr>))) = length cs
   \<and> self (run_calls sv cs \<lparr>self = N8nVoiceTradingTester dflt b, world = w, trace = []\<rparr>) = N8nVoiceTradingTester dflt b
   \<and> headers (session (N8nVoiceTradingTester dflt b)) ''Content-Type'' = Some ''application/json''"
proof -
  have "req_headers (request_of (N8nVoiceTradingTester dflt b) c) ''Content-Type'' = Some ''application/json''" for c
    by (cases c) (simp_all add: N8nVoiceTradingTester_def)
  then show ?thesis
    by (simp add: requests_run_calls self_run_calls list_all_iff N8nVoiceTradingTester_def)
qed

end
